theory Spec2Isabelle
  imports Main "HOL-Library.Word"
begin

section \<open>DID document validation (src/helpers/helpers.ts)\<close>

text \<open>
  The values the validator inspects at run time. A JavaScript exception is an error
  value: a \<open>TypeError\<close> (a property read or a method call on \<open>undefined\<close>) or an
  \<open>Error\<close> thrown with a message.
\<close>

datatype js_error = TypeError | Error string

text \<open>
  A field that should hold an array, as the code finds it at run time: \<open>Absent\<close> is any
  falsy value (\<open>undefined\<close>, \<open>null\<close>), \<open>NotArray\<close> a truthy value that is not an array
  (it has no method \<open>every\<close>).
\<close>

datatype 'a js_array = Absent | NotArray | Array "'a list"

text \<open>
  \<open>ServiceEndpoint | ServiceEndpoint[]\<close> of did-resolver: a string, a record, or an array
  of these.
\<close>

datatype service_endpoint =
  EndpointString string
| EndpointRecord "(string \<times> string) list"
| EndpointArray "service_endpoint list"

text \<open>
  The fields of a verification method, of a service and of a DID document that the code
  reads. An optional field is an option; \<open>None\<close> is \<open>undefined\<close> or \<open>null\<close>
  (the code compares with \<open>!= null\<close>, which treats both alike).
\<close>

record verification_method =
  vm_type :: string
  publicKeyMultibase :: "string option"
  publicKeyJwk :: "(string \<times> string) list option"
  publicKeyBase58 :: "string option"

record service_entry =
  serviceEndpoint :: "service_endpoint option"
  service_id :: "string option"
  service_type :: "string option"

record did_document =
  did_id :: "string option"
  verificationMethod :: "verification_method js_array"
  service :: "service_entry js_array"

record spec_validation_result =
  valid :: bool
  error :: "string option"

text \<open>
  Modelled from the spec: the enum \<open>VerificationMethods\<close> belongs to the package
  @cheqd/sdk, whose code is not part of the repository; its three members carry the type
  names given for \<open>validateSpecCompliantPayload\<close>.
\<close>

definition Ed255192020 :: string where
  "Ed255192020 = ''Ed25519VerificationKey2020''"

definition JWK :: string where
  "JWK = ''JsonWebKey2020''"

definition Ed255192018 :: string where
  "Ed255192018 = ''Ed25519VerificationKey2018''"

text \<open>\<open>String.prototype.startsWith\<close>.\<close>

definition startsWith :: "string \<Rightarrow> string \<Rightarrow> bool" where
  "startsWith s p = (take (length p) s = p)"

text \<open>
  JavaScript truthiness of the operands of \<open>&&\<close> in \<open>isValidService\<close>: a string is
  truthy when it is not empty, an object or an array always, \<open>undefined\<close> never.
\<close>

definition truthy_string :: "string option \<Rightarrow> bool" where
  "truthy_string v = (case v of None \<Rightarrow> False | Some s \<Rightarrow> s \<noteq> [])"

definition truthy_endpoint :: "service_endpoint option \<Rightarrow> bool" where
  "truthy_endpoint v =
     (case v of
        None \<Rightarrow> False
      | Some (EndpointString s) \<Rightarrow> s \<noteq> []
      | Some (EndpointRecord r) \<Rightarrow> True
      | Some (EndpointArray a) \<Rightarrow> True)"

text \<open>
  \<^verbatim>\<open>return didDocument.service
      ? didDocument?.service?.every((s) => s?.serviceEndpoint && s?.id && s?.type)
      : true;\<close>
  A falsy \<open>service\<close> passes. On a truthy value that is no array, \<open>every\<close> is not a
  function and the call raises. An entry that is \<open>null\<close> reads as one with all three
  fields missing.
\<close>

definition isValidService :: "did_document \<Rightarrow> js_error + bool" where
  "isValidService didDocument =
     (case service didDocument of
        Absent \<Rightarrow> Inr True
      | NotArray \<Rightarrow> Inl TypeError
      | Array ss \<Rightarrow>
          Inr (list_all (\<lambda>s. truthy_endpoint (serviceEndpoint s) \<and> truthy_string (service_id s)
                               \<and> truthy_string (service_type s)) ss))"

text \<open>The body of the \<open>switch (vm.type)\<close>: the first matching case decides.\<close>

definition vm_key_present :: "verification_method \<Rightarrow> bool" where
  "vm_key_present vm =
     (if vm_type vm = Ed255192020 then publicKeyMultibase vm \<noteq> None
      else if vm_type vm = JWK then publicKeyJwk vm \<noteq> None
      else if vm_type vm = Ed255192018 then publicKeyBase58 vm \<noteq> None
      else False)"

text \<open>
  \<^verbatim>\<open>if (!didDocument.verificationMethod) return false;
  return didDocument.verificationMethod.every((vm) => { switch (vm.type) ... });\<close>
  On a truthy value that is no array, \<open>every\<close> is not a function.
\<close>

definition isValidVerificationMethod :: "did_document \<Rightarrow> js_error + bool" where
  "isValidVerificationMethod didDocument =
     (case verificationMethod didDocument of
        Absent \<Rightarrow> Inr False
      | NotArray \<Rightarrow> Inl TypeError
      | Array vms \<Rightarrow> Inr (list_all vm_key_present vms))"

definition invalid :: "string \<Rightarrow> spec_validation_result" where
  "invalid msg = \<lparr>valid = False, error = Some msg\<rparr>"

text \<open>
  The checks in the order of the source. The first condition is
  \<open>!didDocument.id && !didDocument.id.startsWith('did:cheqd:')\<close>: with \<open>&&\<close> the
  right operand is evaluated only when the id is falsy, and on \<open>undefined\<close> the call of
  \<open>startsWith\<close> raises.
\<close>

definition validateSpecCompliantPayload :: "did_document \<Rightarrow> js_error + spec_validation_result" where
  "validateSpecCompliantPayload didDocument =
     (case did_id didDocument of
        None \<Rightarrow> Inl TypeError
      | Some i \<Rightarrow>
          if i = [] \<and> \<not> startsWith i ''did:cheqd:'' then Inr (invalid ''id is required'')
          else
            (case verificationMethod didDocument of
               Absent \<Rightarrow> Inr (invalid ''verificationMethod is required'')
             | NotArray \<Rightarrow> Inr (invalid ''verificationMethod must be an array'')
             | Array vms \<Rightarrow>
                 if vms = [] then Inr (invalid ''verificationMethod must be not be empty'')
                 else
                   (case isValidVerificationMethod didDocument of
                      Inl e \<Rightarrow> Inl e
                    | Inr ok \<Rightarrow>
                        if \<not> ok then Inr (invalid ''verificationMethod publicKey is Invalid'')
                        else
                          (case isValidService didDocument of
                             Inl e \<Rightarrow> Inl e
                           | Inr ok' \<Rightarrow>
                               if \<not> ok' then Inr (invalid ''Service is Invalid'')
                               else Inr \<lparr>valid = True, error = None\<rparr>))))"

text \<open>
  The condition on the verification methods, as the claim words it: a non-empty array in
  which every entry of a supported type carries the key of that type (not \<open>null\<close>), and
  no entry has another type.
\<close>

definition supported_keys :: "did_document \<Rightarrow> bool" where
  "supported_keys d =
     (case verificationMethod d of
        Array vms \<Rightarrow>
          vms \<noteq> [] \<and>
          (\<forall>vm \<in> set vms.
             (vm_type vm = ''Ed25519VerificationKey2020'' \<longrightarrow> publicKeyMultibase vm \<noteq> None) \<and>
             (vm_type vm = ''JsonWebKey2020'' \<longrightarrow> publicKeyJwk vm \<noteq> None) \<and>
             (vm_type vm = ''Ed25519VerificationKey2018'' \<longrightarrow> publicKeyBase58 vm \<noteq> None) \<and>
             vm_type vm \<in> {''Ed25519VerificationKey2020'', ''JsonWebKey2020'',
                             ''Ed25519VerificationKey2018''})
      | _ \<Rightarrow> False)"



section \<open>Webhook signature (src/helpers/helpers.ts)\<close>

text \<open>
  The \<open>Hmac\<close> object of node:crypto: the hash algorithm and the key it was created with
  and the data fed to it so far. The keyed hash itself belongs to the platform and is a
  parameter of the model: \<open>mac alg key data\<close> is the HMAC of \<open>data\<close> under \<open>key\<close> with
  the hash function named \<open>alg\<close>, as bytes.
\<close>

type_synonym byte = "8 word"

type_synonym keyed_hash = "string \<Rightarrow> string \<Rightarrow> string \<Rightarrow> byte list"

record hmac =
  hmac_algorithm :: string
  hmac_key :: string
  hmac_data :: string

definition createHmac :: "string \<Rightarrow> string \<Rightarrow> hmac" where
  "createHmac algorithm key = \<lparr>hmac_algorithm = algorithm, hmac_key = key, hmac_data = []\<rparr>"

definition update :: "hmac \<Rightarrow> string \<Rightarrow> hmac" where
  "update h chunk = h\<lparr>hmac_data := hmac_data h @ chunk\<rparr>"

text \<open>\<open>digest('hex')\<close>: two lowercase hexadecimal digits for every byte, high nibble first.\<close>

definition hex_digit :: "nat \<Rightarrow> char" where
  "hex_digit n = ''0123456789abcdef'' ! n"

definition hex_of_byte :: "byte \<Rightarrow> string" where
  "hex_of_byte b = [hex_digit (unat b div 16), hex_digit (unat b mod 16)]"

definition digest_hex :: "keyed_hash \<Rightarrow> hmac \<Rightarrow> string" where
  "digest_hex mac h = concat (map hex_of_byte (mac (hmac_algorithm h) (hmac_key h) (hmac_data h)))"

text \<open>
  \<^verbatim>\<open>const hmac = createHmac('sha256', signingKey);
  hmac.update(rawBody);
  const signature = hmac.digest('hex');
  return signature === expectedSignature;\<close>
\<close>

definition verifyHookSignature :: "keyed_hash \<Rightarrow> string \<Rightarrow> string \<Rightarrow> string \<Rightarrow> bool" where
  "verifyHookSignature mac signingKey rawBody expectedSignature =
     (let hmac0 = createHmac ''sha256'' signingKey;
          hmac1 = update hmac0 rawBody;
          signature = digest_hex mac hmac1
      in signature = expectedSignature)"

text \<open>The lowercase hexadecimal encoding of a byte string, as the claim names it.\<close>

definition lowercase_hex :: "byte list \<Rightarrow> string" where
  "lowercase_hex bs = concat (map hex_of_byte bs)"

section \<open>Status list operations (class Veramo of src/helpers/helpers.ts)\<close>

text \<open>
  Every function of the class receives the agent as its first argument and hands the
  work to one of the agent's methods. The methods come from the packages @veramo/core
  and @cheqd/did-provider-cheqd, not from this repository, so the agent stays what it is
  in the source, an argument: a record of its methods. A method maps the object it is
  called with to a value of type \<open>'r\<close>, the outcome of the call (what the promise
  settles to, together with whatever the call does to the ledger); \<open>'c\<close> is the type of
  a verifiable credential.
\<close>

text \<open>The object under the key \<open>revocationOptions\<close>, \<open>suspensionOptions\<close> or \<open>unsuspensionOptions\<close>.\<close>

record status_list_options =
  issuerDid :: string
  statusListIndices :: "int list"
  statusListName :: string
  statusListVersion :: "string option"

text \<open>
  What a status call is about: the key of the argument object that names it
  (\<open>credentials\<close>, \<open>credential\<close>, or one of the three option keys) with its value.
\<close>

datatype 'c status_subject =
  Credentials "'c list"
| Credential 'c
| RevocationOptions status_list_options
| SuspensionOptions status_list_options
| UnsuspensionOptions status_list_options

record 'c status_args =
  subject :: "'c status_subject"
  fetchList :: bool
  publish :: bool
  returnUpdatedStatusList :: "bool option"

text \<open>The argument object of \<open>cheqdCreateStatusList2021\<close>.\<close>

record create_status_list_args =
  kms :: "string option"
  create_issuerDid :: string
  create_statusListName :: string
  statusPurpose :: string
  statusListEncoding :: string
  statusListLength :: "int option"
  encrypted :: bool
  resourceVersion :: "string option"

record ('c, 'r) agent =
  keyManagerGetKeyManagementSystems :: "string list"
  cheqdCreateStatusList2021 :: "create_status_list_args \<Rightarrow> 'r"
  cheqdRevokeCredentials :: "'c status_args \<Rightarrow> 'r"
  cheqdRevokeCredential :: "'c status_args \<Rightarrow> 'r"
  cheqdSuspendCredentials :: "'c status_args \<Rightarrow> 'r"
  cheqdSuspendCredential :: "'c status_args \<Rightarrow> 'r"
  cheqdUnsuspendCredentials :: "'c status_args \<Rightarrow> 'r"
  cheqdUnsuspendCredential :: "'c status_args \<Rightarrow> 'r"

text \<open>\<open>VerifiableCredential | VerifiableCredential[]\<close>, told apart by \<open>Array.isArray\<close>.\<close>

datatype 'c credentials_input = One 'c | Many "'c list"

text \<open>The default parameter \<open>publish = true\<close>: \<open>None\<close> is an argument left out.\<close>

definition publish_or_default :: "bool option \<Rightarrow> bool" where
  "publish_or_default p = (case p of None \<Rightarrow> True | Some b \<Rightarrow> b)"

text \<open>
  \<^verbatim>\<open>if (Array.isArray(credentials))
      return await agent.cheqdRevokeCredentials({ credentials, fetchList: true, publish: true });
  return await agent.cheqdRevokeCredential({ credential: credentials, fetchList: true, publish });\<close>
\<close>

definition revokeCredentials ::
  "('c, 'r) agent \<Rightarrow> 'c credentials_input \<Rightarrow> bool option \<Rightarrow> 'r" where
  "revokeCredentials agent credentials publish_arg =
     (let p = publish_or_default publish_arg in
      case credentials of
        Many cs \<Rightarrow>
          cheqdRevokeCredentials agent
            \<lparr>subject = Credentials cs, fetchList = True, publish = True,
             returnUpdatedStatusList = None\<rparr>
      | One c \<Rightarrow>
          cheqdRevokeCredential agent
            \<lparr>subject = Credential c, fetchList = True, publish = p,
             returnUpdatedStatusList = None\<rparr>)"

text \<open>
  \<^verbatim>\<open>if (Array.isArray(credentials))
      return await agent.cheqdSuspendCredentials({ credentials, fetchList: true, publish });
  return await agent.cheqdSuspendCredential({ credential: credentials, fetchList: true, publish });\<close>
\<close>

definition suspendCredentials ::
  "('c, 'r) agent \<Rightarrow> 'c credentials_input \<Rightarrow> bool option \<Rightarrow> 'r" where
  "suspendCredentials agent credentials publish_arg =
     (let p = publish_or_default publish_arg in
      case credentials of
        Many cs \<Rightarrow>
          cheqdSuspendCredentials agent
            \<lparr>subject = Credentials cs, fetchList = True, publish = p,
             returnUpdatedStatusList = None\<rparr>
      | One c \<Rightarrow>
          cheqdSuspendCredential agent
            \<lparr>subject = Credential c, fetchList = True, publish = p,
             returnUpdatedStatusList = None\<rparr>)"

definition unsuspendCredentials ::
  "('c, 'r) agent \<Rightarrow> 'c credentials_input \<Rightarrow> bool option \<Rightarrow> 'r" where
  "unsuspendCredentials agent credentials publish_arg =
     (let p = publish_or_default publish_arg in
      case credentials of
        Many cs \<Rightarrow>
          cheqdUnsuspendCredentials agent
            \<lparr>subject = Credentials cs, fetchList = True, publish = p,
             returnUpdatedStatusList = None\<rparr>
      | One c \<Rightarrow>
          cheqdUnsuspendCredential agent
            \<lparr>subject = Credential c, fetchList = True, publish = p,
             returnUpdatedStatusList = None\<rparr>)"

text \<open>
  \<open>UpdateStatusListOptions\<close>, the fields the code reads. (\<open>opt_statusListName\<close> and
  \<open>opt_statusListVersion\<close> are its \<open>statusListName\<close> and \<open>statusListVersion\<close>.)
\<close>

record update_status_list_options =
  indices :: "int list"
  opt_statusListName :: string
  opt_statusListVersion :: "string option"
  statusAction :: string

definition forwarded_options :: "string \<Rightarrow> update_status_list_options \<Rightarrow> status_list_options" where
  "forwarded_options did statusOptions =
     \<lparr>issuerDid = did,
      statusListIndices = indices statusOptions,
      statusListName = opt_statusListName statusOptions,
      statusListVersion = opt_statusListVersion statusOptions\<rparr>"

text \<open>
  The \<open>switch (statusOptions.statusAction)\<close> of \<open>updateStatusList2021\<close>. Each case calls
  the bulk method of its action with \<open>fetchList: true, publish, returnUpdatedStatusList:
  !publish\<close>; there is no default case, so any other action returns \<open>undefined\<close> (here
  \<open>None\<close>) without calling the agent.
\<close>

definition updateStatusList2021 ::
  "('c, 'r) agent \<Rightarrow> string \<Rightarrow> update_status_list_options \<Rightarrow> bool option \<Rightarrow> 'r option" where
  "updateStatusList2021 agent did statusOptions publish_arg =
     (let p = publish_or_default publish_arg in
      if statusAction statusOptions = ''revoke'' then
        Some (cheqdRevokeCredentials agent
          \<lparr>subject = RevocationOptions (forwarded_options did statusOptions),
           fetchList = True, publish = p, returnUpdatedStatusList = Some (\<not> p)\<rparr>)
      else if statusAction statusOptions = ''suspend'' then
        Some (cheqdSuspendCredentials agent
          \<lparr>subject = SuspensionOptions (forwarded_options did statusOptions),
           fetchList = True, publish = p, returnUpdatedStatusList = Some (\<not> p)\<rparr>)
      else if statusAction statusOptions = ''reinstate'' then
        Some (cheqdUnsuspendCredentials agent
          \<lparr>subject = UnsuspensionOptions (forwarded_options did statusOptions),
           fetchList = True, publish = p, returnUpdatedStatusList = Some (\<not> p)\<rparr>)
      else None)"

text \<open>
  \<open>ResourcePayload\<close> and \<open>CreateStatusListOptions\<close>, the fields \<open>createStatusList2021\<close>
  reads (\<open>opt_length\<close> is the option \<open>length\<close>, and so on).
\<close>

record resource_payload =
  resource_name :: "string option"
  resource_version :: "string option"

record create_status_list_options =
  opt_statusPurpose :: "string option"
  opt_encoding :: "string option"
  opt_length :: "int option"
  opt_encrypted :: "bool option"

text \<open>\<open>x || d\<close> on an optional string and on an optional boolean.\<close>

definition string_or :: "string option \<Rightarrow> string \<Rightarrow> string" where
  "string_or v d = (case v of None \<Rightarrow> d | Some s \<Rightarrow> if s = [] then d else s)"

definition bool_or_false :: "bool option \<Rightarrow> bool" where
  "bool_or_false v = (case v of None \<Rightarrow> False | Some b \<Rightarrow> b)"

text \<open>\<open>const [kms] = await agent.keyManagerGetKeyManagementSystems()\<close>.\<close>

definition first_kms :: "string list \<Rightarrow> string option" where
  "first_kms ks = (case ks of [] \<Rightarrow> None | k # _ \<Rightarrow> Some k)"

definition createStatusList2021 ::
  "('c, 'r) agent \<Rightarrow> string \<Rightarrow> resource_payload \<Rightarrow> create_status_list_options
     \<Rightarrow> js_error + 'r" where
  "createStatusList2021 agent did resourceOptions statusOptions =
     (let k = first_kms (keyManagerGetKeyManagementSystems agent) in
      case resource_name resourceOptions of
        None \<Rightarrow> Inl (Error ''StatusList name is required'')
      | Some n \<Rightarrow>
          if n = [] then Inl (Error ''StatusList name is required'')
          else Inr (cheqdCreateStatusList2021 agent
            \<lparr>kms = k,
             create_issuerDid = did,
             create_statusListName = n,
             statusPurpose = string_or (opt_statusPurpose statusOptions) ''revocation'',
             statusListEncoding = string_or (opt_encoding statusOptions) ''base64url'',
             statusListLength = opt_length statusOptions,
             encrypted = bool_or_false (opt_encrypted statusOptions),
             resourceVersion = resource_version resourceOptions\<rparr>))"

text \<open>
  The methods of \<open>LocalIdentity\<close> that the controller calls: each passes its arguments on
  to the function of \<open>Veramo\<close>, \<open>reinstateCredentials\<close> to \<open>unsuspendCredentials\<close>. The
  flag is declared a boolean; the controller may still pass \<open>undefined\<close> (here \<open>None\<close>),
  which the default parameter of \<open>Veramo\<close> then replaces.
\<close>

definition LocalIdentity_revokeCredentials ::
  "('c, 'r) agent \<Rightarrow> 'c credentials_input \<Rightarrow> bool option \<Rightarrow> 'r" where
  "LocalIdentity_revokeCredentials agent credentials publish_arg =
     revokeCredentials agent credentials publish_arg"

definition LocalIdentity_suspendCredentials ::
  "('c, 'r) agent \<Rightarrow> 'c credentials_input \<Rightarrow> bool option \<Rightarrow> 'r" where
  "LocalIdentity_suspendCredentials agent credentials publish_arg =
     suspendCredentials agent credentials publish_arg"

definition LocalIdentity_reinstateCredentials ::
  "('c, 'r) agent \<Rightarrow> 'c credentials_input \<Rightarrow> bool option \<Rightarrow> 'r" where
  "LocalIdentity_reinstateCredentials agent credentials publish_arg =
     unsuspendCredentials agent credentials publish_arg"

section \<open>Properties of the validation of DID documents\<close>

lemma vm_key_present_iff:
  "vm_key_present vm \<longleftrightarrow>
     (vm_type vm = ''Ed25519VerificationKey2020'' \<longrightarrow> publicKeyMultibase vm \<noteq> None) \<and>
     (vm_type vm = ''JsonWebKey2020'' \<longrightarrow> publicKeyJwk vm \<noteq> None) \<and>
     (vm_type vm = ''Ed25519VerificationKey2018'' \<longrightarrow> publicKeyBase58 vm \<noteq> None) \<and>
     vm_type vm \<in> {''Ed25519VerificationKey2020'', ''JsonWebKey2020'',
                     ''Ed25519VerificationKey2018''}"
  by (simp add: vm_key_present_def Ed255192020_def JWK_def Ed255192018_def)

lemma supported_keys_iff:
  "supported_keys d \<longleftrightarrow>
     (case verificationMethod d of
        Array vms \<Rightarrow> vms \<noteq> [] \<and> list_all vm_key_present vms
      | _ \<Rightarrow> False)"
  unfolding supported_keys_def list_all_iff vm_key_present_iff ..




lemma validate_nonempty_id:
  assumes "did_id d = Some i" and "i \<noteq> []"
  shows "validateSpecCompliantPayload d =
     (case verificationMethod d of
        Absent \<Rightarrow> Inr (invalid ''verificationMethod is required'')
      | NotArray \<Rightarrow> Inr (invalid ''verificationMethod must be an array'')
      | Array vms \<Rightarrow>
          if vms = [] then Inr (invalid ''verificationMethod must be not be empty'')
          else if \<not> list_all vm_key_present vms
            then Inr (invalid ''verificationMethod publicKey is Invalid'')
          else
            (case isValidService d of
               Inl e \<Rightarrow> Inl e
             | Inr ok \<Rightarrow>
                 if \<not> ok then Inr (invalid ''Service is Invalid'')
                 else Inr \<lparr>valid = True, error = None\<rparr>))"
  using assms
  by (simp add: validateSpecCompliantPayload_def isValidVerificationMethod_def
      split: js_array.splits)

text \<open>
  The two other cases of the first check: an empty id is rejected, and a missing id raises
  before any result is returned.
\<close>

lemma validate_empty_id:
  "did_id d = Some [] \<Longrightarrow> validateSpecCompliantPayload d = Inr (invalid ''id is required'')"
  by (simp add: validateSpecCompliantPayload_def startsWith_def)

lemma validate_missing_id:
  "did_id d = None \<Longrightarrow> validateSpecCompliantPayload d = Inl TypeError"
  by (simp add: validateSpecCompliantPayload_def)

text \<open>
  A \<open>service\<close> that is present but no array: once the id and the verification methods
  have passed, the call raises instead of returning a result.
\<close>

lemma validate_service_not_array:
  assumes "did_id d = Some i" and "i \<noteq> []" and "supported_keys d" and "service d = NotArray"
  shows "validateSpecCompliantPayload d = Inl TypeError"
proof -
  from assms(3) obtain vms where vms: "verificationMethod d = Array vms" "vms \<noteq> []"
      "list_all vm_key_present vms"
    unfolding supported_keys_iff by (auto split: js_array.splits)
  show ?thesis
    by (simp add: validate_nonempty_id [OF assms(1,2)] vms isValidService_def assms(4))
qed




section \<open>Properties of the signature check\<close>

lemma hex_digit_lowercase:
  "n < 16 \<Longrightarrow> hex_digit n \<in> set ''0123456789abcdef''"
  unfolding hex_digit_def by (rule nth_mem) simp

lemma hex_of_byte_lowercase:
  "list_all (\<lambda>c. c \<in> set ''0123456789abcdef'') (hex_of_byte b)"
proof -
  have "unat b < 256" using unsigned_less [of b, where ?'a = nat] by simp
  then have "unat b div 16 < 16" by simp
  moreover have "unat b mod 16 < 16" by simp
  ultimately show ?thesis
    unfolding hex_of_byte_def using hex_digit_lowercase by simp
qed

lemma lowercase_hex_chars:
  "list_all (\<lambda>c. c \<in> set ''0123456789abcdef'') (lowercase_hex bs)"
  unfolding lowercase_hex_def
  by (induction bs) (use hex_of_byte_lowercase in \<open>simp_all add: list_all_append\<close>)

lemma length_lowercase_hex: "length (lowercase_hex bs) = 2 * length bs"
  unfolding lowercase_hex_def by (induction bs) (simp_all add: hex_of_byte_def)

lemma lowercase_hex_example: "lowercase_hex [0xDE, 0xAD, 0x0F] = ''dead0f''"
  by (simp add: lowercase_hex_def hex_of_byte_def hex_digit_def)

text \<open>
  C10. \<open>verifyHookSignature\<close> answers true exactly when the expected signature is the
  lowercase hexadecimal encoding of HMAC-SHA256 keyed with \<open>signingKey\<close> over \<open>rawBody\<close>;
  that encoding has two digits of \<open>0123456789abcdef\<close> for every byte. The answer is a
  function of the three arguments alone (every call creates an \<open>Hmac\<close> object of its own),
  so equal inputs give equal answers.
\<close>

theorem verifyHookSignature_iff:
  "(verifyHookSignature mac signingKey rawBody expectedSignature
      \<longleftrightarrow> expectedSignature = lowercase_hex (mac ''sha256'' signingKey rawBody))
   \<and> list_all (\<lambda>c. c \<in> set ''0123456789abcdef'') (lowercase_hex (mac ''sha256'' signingKey rawBody))
   \<and> length (lowercase_hex (mac ''sha256'' signingKey rawBody))
       = 2 * length (mac ''sha256'' signingKey rawBody)"
proof -
  have "digest_hex mac (update (createHmac ''sha256'' signingKey) rawBody)
      = lowercase_hex (mac ''sha256'' signingKey rawBody)"
    by (simp add: digest_hex_def update_def createHmac_def lowercase_hex_def)
  then have "verifyHookSignature mac signingKey rawBody expectedSignature
      \<longleftrightarrow> expectedSignature = lowercase_hex (mac ''sha256'' signingKey rawBody)"
    unfolding verifyHookSignature_def Let_def by auto
  then show ?thesis
    using lowercase_hex_chars length_lowercase_hex by blast
qed

section \<open>Properties of the status list operations\<close>

lemma suspendCredentials_many:
  "suspendCredentials agent (Many cs) (Some p) =
     cheqdSuspendCredentials agent
       \<lparr>subject = Credentials cs, fetchList = True, publish = p, returnUpdatedStatusList = None\<rparr>"
  by (simp add: suspendCredentials_def publish_or_default_def)

lemma unsuspendCredentials_many:
  "unsuspendCredentials agent (Many cs) (Some p) =
     cheqdUnsuspendCredentials agent
       \<lparr>subject = Credentials cs, fetchList = True, publish = p, returnUpdatedStatusList = None\<rparr>"
  by (simp add: unsuspendCredentials_def publish_or_default_def)

lemma revokeCredentials_one:
  "revokeCredentials agent (One c) (Some p) =
     cheqdRevokeCredential agent
       \<lparr>subject = Credential c, fetchList = True, publish = p, returnUpdatedStatusList = None\<rparr>"
  by (simp add: revokeCredentials_def publish_or_default_def)

lemma reinstateCredentials_calls_unsuspend:
  "LocalIdentity_reinstateCredentials agent credentials (Some p) =
     (case credentials of
        Many cs \<Rightarrow>
          cheqdUnsuspendCredentials agent
            \<lparr>subject = Credentials cs, fetchList = True, publish = p,
             returnUpdatedStatusList = None\<rparr>
      | One c \<Rightarrow>
          cheqdUnsuspendCredential agent
            \<lparr>subject = Credential c, fetchList = True, publish = p,
             returnUpdatedStatusList = None\<rparr>)"
  by (simp add: LocalIdentity_reinstateCredentials_def unsuspendCredentials_def
      publish_or_default_def)

lemma updateStatusList2021_unpublished:
  "updateStatusList2021 agent did statusOptions (Some False) =
     (if statusAction statusOptions = ''revoke'' then
        Some (cheqdRevokeCredentials agent
          \<lparr>subject = RevocationOptions (forwarded_options did statusOptions),
           fetchList = True, publish = False, returnUpdatedStatusList = Some True\<rparr>)
      else if statusAction statusOptions = ''suspend'' then
        Some (cheqdSuspendCredentials agent
          \<lparr>subject = SuspensionOptions (forwarded_options did statusOptions),
           fetchList = True, publish = False, returnUpdatedStatusList = Some True\<rparr>)
      else if statusAction statusOptions = ''reinstate'' then
        Some (cheqdUnsuspendCredentials agent
          \<lparr>subject = UnsuspensionOptions (forwarded_options did statusOptions),
           fetchList = True, publish = False, returnUpdatedStatusList = Some True\<rparr>)
      else None)"
  by (simp add: updateStatusList2021_def publish_or_default_def)

lemma createStatusList2021_defaults:
  "createStatusList2021 agent did
       \<lparr>resource_name = Some (c # cs), resource_version = v\<rparr>
       \<lparr>opt_statusPurpose = None, opt_encoding = None, opt_length = None, opt_encrypted = None\<rparr>
     = Inr (cheqdCreateStatusList2021 agent
         \<lparr>kms = first_kms (keyManagerGetKeyManagementSystems agent),
          create_issuerDid = did,
          create_statusListName = c # cs,
          statusPurpose = ''revocation'',
          statusListEncoding = ''base64url'',
          statusListLength = None,
          encrypted = False,
          resourceVersion = v\<rparr>)"
  by (simp add: createStatusList2021_def string_or_def bool_or_false_def)

text \<open>
  C2. A revocation called with \<open>publish = false\<close> on an array of credentials does not
  leave the decision to publish with the caller: the array branch of \<open>revokeCredentials\<close>
  calls the agent's bulk revocation with \<open>publish: true\<close>, whatever the caller passed,
  also through \<open>LocalIdentity.revokeCredentials\<close>. (The single-credential branch, and both
  branches of \<open>suspendCredentials\<close> and \<open>unsuspendCredentials\<close>, pass the caller's flag.)
\<close>

theorem revokeCredentials_many_ignores_publish:
  "LocalIdentity_revokeCredentials agent (Many cs) (Some False) =
     cheqdRevokeCredentials agent
       \<lparr>subject = Credentials cs, fetchList = True, publish = True,
        returnUpdatedStatusList = None\<rparr>
   \<and> revokeCredentials agent (Many cs) (Some False) = revokeCredentials agent (Many cs) (Some True)"
  by (simp add: LocalIdentity_revokeCredentials_def revokeCredentials_def)

end
